theory Spec2Isabelle
  imports Complex_Main "HOL-Library.AList"
begin

section \<open>The Python client of the rate limiter API\<close>

text \<open>
  The source file \<^verbatim>\<open>api-server/examples/python-client.py\<close> holds one class,
  \<^verbatim>\<open>RateLimiterClient\<close>, whose methods each build one HTTP request, hand it to a
  \<^verbatim>\<open>requests.Session\<close> and return the decoded JSON of the answer. The model keeps
  the request that is built, the order in which the requests are handed over, the
  cookie jar of the session, and the ways a method can fail (the body cannot be
  encoded, the session raises, or the answer is not JSON).
\<close>

subsection \<open>JSON values, requests and the network\<close>

text \<open>
  A Python dict keeps insertion order, so a JSON object is an association list.
  Python integers are unbounded, so a JSON number written from an \<^verbatim>\<open>int\<close> is an
  \<^typ>\<open>int\<close>.
\<close>

datatype json =
    JNull
  | JBool bool
  | JInt int
  | JReal real
  | JStr string
  | JArr "json list"
  | JObj "(string \<times> json) list"

datatype http_verb = GET | POST | DELETE

record request =
  verb :: http_verb
  url :: string
  headers :: "(string \<times> string) list"
  body :: "json option"

text \<open>
  A request is the call as the method hands it to the session: the verb, the URL,
  the headers set on the session, and the value given as \<^verbatim>\<open>json=\<close>. What the
  library adds on the wire (its default headers, the cookies it holds) is not part
  of it.

  The exceptions that can leave a method: the body cannot be encoded as JSON
  (\<^verbatim>\<open>requests.exceptions.InvalidJSONError\<close>, raised before anything is sent), the
  session call raises for another reason, in the library or on the wire
  (\<^verbatim>\<open>requests.RequestException\<close>), or \<^verbatim>\<open>response.json()\<close> raises because the body
  of the answer is not JSON.
\<close>

datatype error = InvalidJSONError | RequestException | JSONDecodeError

text \<open>
  An answer: its status, its body when that is JSON, and the cookies it sets that
  the session keeps (by name; domain, path and expiry are left out).
\<close>

record response =
  status_code :: int
  content :: "json option"
  set_cookies :: "(string \<times> string) list"

text \<open>
  The server and the wire are outside the source. The network is a table that
  fixes, for the n-th call of the session and the request handed over in it, what
  the call gives back once the body is encoded: an answer, or an exception of the
  library or the wire. Being arbitrary, the table covers whatever a server makes
  of the cookies that go out with a request. \<open>sent\<close> is the log of the requests
  handed to the session so far, oldest first.
\<close>

record network =
  outcome :: "nat \<Rightarrow> request \<Rightarrow> error + response"
  sent :: "request list"

text \<open>
  The client: its base URL and what the model keeps of \<^verbatim>\<open>self.session\<close>, namely the
  headers the constructor sets on it (on top of the library's defaults, which are
  left out) and its cookie jar.
\<close>

record RateLimiterClient =
  base_url :: string
  session_headers :: "(string \<times> string) list"
  session_cookies :: "(string \<times> string) list"

subsection \<open>The constructor\<close>

text \<open>\<^verbatim>\<open>str.rstrip(chars)\<close> with a one-character argument: drop every trailing copy.\<close>

definition rstrip :: "char \<Rightarrow> string \<Rightarrow> string" where
  "rstrip c s = rev (dropWhile (\<lambda>x. x = c) (rev s))"

text \<open>
  \<^verbatim>\<open>__init__(self, base_url="http://localhost:8080")\<close>: the argument is optional
  (\<open>None\<close> stands for a call that omits it). The session starts with the one header
  the constructor adds and an empty cookie jar.
\<close>

definition init :: "string option \<Rightarrow> RateLimiterClient" where
  "init arg =
     (let base_url = (case arg of None \<Rightarrow> ''http://localhost:8080'' | Some b \<Rightarrow> b)
      in \<lparr> base_url = rstrip CHR ''/'' base_url,
           session_headers = [(''Content-Type'', ''application/json'')],
           session_cookies = [] \<rparr>)"

subsection \<open>Sending a request\<close>

text \<open>
  The library encodes a \<^verbatim>\<open>json=\<close> body with \<^verbatim>\<open>json.dumps\<close>, which writes an integer
  in decimal. The interpreter refuses to convert an integer of more than
  \<^verbatim>\<open>sys.int_max_str_digits\<close> digits (the sign not counted) to a string; the source
  leaves that limit at its default, 4300.
\<close>

fun decimal_digits :: "nat \<Rightarrow> nat" where
  "decimal_digits n = (if n < 10 then 1 else Suc (decimal_digits (n div 10)))"

declare decimal_digits.simps [simp del]

definition int_max_str_digits :: nat where
  "int_max_str_digits = 4300"

fun encodable :: "json \<Rightarrow> bool" where
  "encodable (JInt i) = (decimal_digits (nat \<bar>i\<bar>) \<le> int_max_str_digits)"
| "encodable (JArr xs) = list_all encodable xs"
| "encodable (JObj ms) = list_all (\<lambda>m. encodable (snd m)) ms"
| "encodable _ = True"

text \<open>The session keeps the cookies an answer sets: a later one of the same name wins.\<close>

definition store_cookies ::
  "(string \<times> string) list \<Rightarrow> (string \<times> string) list \<Rightarrow> (string \<times> string) list" where
  "store_cookies cs jar = fold (\<lambda>c. AList.update (fst c) (snd c)) cs jar"

text \<open>
  \<^verbatim>\<open>self.session.get(url)\<close>, \<^verbatim>\<open>self.session.post(url, json=...)\<close> and
  \<^verbatim>\<open>self.session.delete(url)\<close>: the request carries the session's headers and is
  appended to the log. A body that cannot be encoded raises before anything is
  sent; otherwise the network decides the outcome, and the session stores the
  cookies of the answer. (A call that fails after a redirect which set a cookie is
  taken to store none.)
\<close>

definition session_request ::
  "RateLimiterClient \<Rightarrow> http_verb \<Rightarrow> string \<Rightarrow> json option \<Rightarrow> network
     \<Rightarrow> (error + response) \<times> RateLimiterClient \<times> network" where
  "session_request self v u b net =
     (let req = \<lparr> verb = v, url = u, headers = session_headers self, body = b \<rparr>;
          net' = net \<lparr> sent := sent net @ [req] \<rparr>
      in if (case b of None \<Rightarrow> True | Some j \<Rightarrow> encodable j)
         then (case outcome net (length (sent net)) req of
                 Inl e \<Rightarrow> (Inl e, self, net')
               | Inr resp \<Rightarrow>
                   (Inr resp,
                    self \<lparr> session_cookies := store_cookies (set_cookies resp) (session_cookies self) \<rparr>,
                    net'))
         else (Inl InvalidJSONError, self, net'))"

text \<open>
  \<^verbatim>\<open>return response.json()\<close>: an exception of the session call propagates; an
  answer whose body is not JSON raises in \<^verbatim>\<open>json()\<close>.
\<close>

definition response_json :: "error + response \<Rightarrow> error + json" where
  "response_json r =
     (case r of
        Inl e \<Rightarrow> Inl e
      | Inr resp \<Rightarrow> (case content resp of None \<Rightarrow> Inl JSONDecodeError | Some j \<Rightarrow> Inr j))"

subsection \<open>The methods\<close>

text \<open>
  Every method takes the client and the network and returns the value (or the
  exception) together with the client and the network afterwards. No method of the
  source assigns to a field of \<^verbatim>\<open>self\<close>: the client afterwards is the client as the
  session call leaves it.
\<close>

type_synonym 'a method_result = "(error + 'a) \<times> RateLimiterClient \<times> network"

definition health_check :: "RateLimiterClient \<Rightarrow> network \<Rightarrow> json method_result" where
  "health_check self net =
     (let (response, self', net') = session_request self GET (base_url self @ ''/api/health'') None net
      in (response_json response, self', net'))"

definition get_metrics :: "RateLimiterClient \<Rightarrow> network \<Rightarrow> json method_result" where
  "get_metrics self net =
     (let (response, self', net') = session_request self GET (base_url self @ ''/api/metrics'') None net
      in (response_json response, self', net'))"

text \<open>
  \<^verbatim>\<open>check_rate_limit(self, key, capacity=100, refill_rate=10)\<close>: the two optional
  arguments are \<open>None\<close> when the caller omits them.
\<close>

definition check_rate_limit ::
  "RateLimiterClient \<Rightarrow> string \<Rightarrow> int option \<Rightarrow> int option \<Rightarrow> network \<Rightarrow> json method_result" where
  "check_rate_limit self key capacity_arg refill_rate_arg net =
     (let capacity = (case capacity_arg of None \<Rightarrow> 100 | Some c \<Rightarrow> c);
          refill_rate = (case refill_rate_arg of None \<Rightarrow> 10 | Some r \<Rightarrow> r);
          (response, self', net') =
            session_request self POST (base_url self @ ''/api/v1/limiter/check'')
              (Some (JObj [(''key'', JStr key),
                           (''capacity'', JInt capacity),
                           (''refillRate'', JInt refill_rate)])) net
      in (response_json response, self', net'))"

definition apply_penalty ::
  "RateLimiterClient \<Rightarrow> string \<Rightarrow> int \<Rightarrow> network \<Rightarrow> json method_result" where
  "apply_penalty self key points net =
     (let (response, self', net') =
            session_request self POST (base_url self @ ''/api/v1/limiter/penalty'')
              (Some (JObj [(''key'', JStr key), (''points'', JInt points)])) net
      in (response_json response, self', net'))"

definition apply_reward ::
  "RateLimiterClient \<Rightarrow> string \<Rightarrow> int \<Rightarrow> network \<Rightarrow> json method_result" where
  "apply_reward self key points net =
     (let (response, self', net') =
            session_request self POST (base_url self @ ''/api/v1/limiter/reward'')
              (Some (JObj [(''key'', JStr key), (''points'', JInt points)])) net
      in (response_json response, self', net'))"

definition block_key ::
  "RateLimiterClient \<Rightarrow> string \<Rightarrow> int \<Rightarrow> network \<Rightarrow> json method_result" where
  "block_key self key duration net =
     (let (response, self', net') =
            session_request self POST (base_url self @ ''/api/v1/limiter/block'')
              (Some (JObj [(''key'', JStr key), (''duration'', JInt duration)])) net
      in (response_json response, self', net'))"

definition unblock_key ::
  "RateLimiterClient \<Rightarrow> string \<Rightarrow> network \<Rightarrow> json method_result" where
  "unblock_key self key net =
     (let (response, self', net') =
            session_request self POST (base_url self @ ''/api/v1/limiter/unblock'')
              (Some (JObj [(''key'', JStr key)])) net
      in (response_json response, self', net'))"

text \<open>The next three put the key into the path: an f-string, so the key as it is.\<close>

definition get_status ::
  "RateLimiterClient \<Rightarrow> string \<Rightarrow> network \<Rightarrow> json method_result" where
  "get_status self key net =
     (let (response, self', net') =
            session_request self GET (base_url self @ ''/api/v1/limiter/status/'' @ key) None net
      in (response_json response, self', net'))"

definition reset_limiter ::
  "RateLimiterClient \<Rightarrow> string \<Rightarrow> network \<Rightarrow> json method_result" where
  "reset_limiter self key net =
     (let (response, self', net') =
            session_request self POST (base_url self @ ''/api/v1/limiter/reset/'' @ key) None net
      in (response_json response, self', net'))"

definition delete_limiter ::
  "RateLimiterClient \<Rightarrow> string \<Rightarrow> network \<Rightarrow> json method_result" where
  "delete_limiter self key net =
     (let (response, self', net') =
            session_request self DELETE (base_url self @ ''/api/v1/limiter/'' @ key) None net
      in (response_json response, self', net'))"

definition list_limiters :: "RateLimiterClient \<Rightarrow> network \<Rightarrow> json method_result" where
  "list_limiters self net =
     (let (response, self', net') =
            session_request self GET (base_url self @ ''/api/v1/limiters'') None net
      in (response_json response, self', net'))"

subsection \<open>The interface of the class\<close>

text \<open>
  The public methods of \<^verbatim>\<open>RateLimiterClient\<close> in the order of the source, each
  with the names of its parameters after \<^verbatim>\<open>self\<close>.
\<close>

definition methods :: "(string \<times> string list) list" where
  "methods =
     [(''health_check'', []),
      (''get_metrics'', []),
      (''check_rate_limit'', [''key'', ''capacity'', ''refill_rate'']),
      (''apply_penalty'', [''key'', ''points'']),
      (''apply_reward'', [''key'', ''points'']),
      (''block_key'', [''key'', ''duration'']),
      (''unblock_key'', [''key'']),
      (''get_status'', [''key'']),
      (''reset_limiter'', [''key'']),
      (''delete_limiter'', [''key'']),
      (''list_limiters'', [])]"

text \<open>A call of a method with its arguments, and what the call does.\<close>

datatype call =
    Health_check
  | Get_metrics
  | Check_rate_limit string "int option" "int option"
  | Apply_penalty string int
  | Apply_reward string int
  | Block_key string int
  | Unblock_key string
  | Get_status string
  | Reset_limiter string
  | Delete_limiter string
  | List_limiters

fun invoke :: "RateLimiterClient \<Rightarrow> call \<Rightarrow> network \<Rightarrow> json method_result" where
  "invoke self Health_check net = health_check self net"
| "invoke self Get_metrics net = get_metrics self net"
| "invoke self (Check_rate_limit key c r) net = check_rate_limit self key c r net"
| "invoke self (Apply_penalty key points) net = apply_penalty self key points net"
| "invoke self (Apply_reward key points) net = apply_reward self key points net"
| "invoke self (Block_key key duration) net = block_key self key duration net"
| "invoke self (Unblock_key key) net = unblock_key self key net"
| "invoke self (Get_status key) net = get_status self key net"
| "invoke self (Reset_limiter key) net = reset_limiter self key net"
| "invoke self (Delete_limiter key) net = delete_limiter self key net"
| "invoke self List_limiters net = list_limiters self net"

text \<open>What a call leaves behind: the value, the client, the network.\<close>

definition result_of :: "'a method_result \<Rightarrow> error + 'a" where
  "result_of r = fst r"

definition client_after :: "'a method_result \<Rightarrow> RateLimiterClient" where
  "client_after r = fst (snd r)"

definition network_after :: "'a method_result \<Rightarrow> network" where
  "network_after r = snd (snd r)"

text \<open>The request a call issued: the newest entry of the log afterwards.\<close>

definition issued :: "'a method_result \<Rightarrow> request" where
  "issued r = last (sent (network_after r))"

text \<open>
  Two notions of URLs, used to state what a key in the path addresses: a string
  starts with another, and the last segment of a path (what follows its last
  slash), which is where the three path-based routes expect the key.
\<close>

definition starts_with :: "string \<Rightarrow> string \<Rightarrow> bool" where
  "starts_with p u = (take (length p) u = p)"

definition last_segment :: "string \<Rightarrow> string" where
  "last_segment u = rev (takeWhile (\<lambda>x. x \<noteq> CHR ''/'') (rev u))"

text \<open>The key a request carries in its JSON body, when it carries one.\<close>

definition body_key :: "request \<Rightarrow> json option" where
  "body_key r = (case body r of Some (JObj members) \<Rightarrow> map_of members ''key'' | _ \<Rightarrow> None)"

section \<open>The engine behind the API\<close>

text \<open>
  The engine that answers the client's requests is part of the repository but not
  of the source file at hand; the client only calls it. The definitions of this
  section follow the specification's description of it (its sections 3, 4 and 7),
  and each says so.
\<close>

subsection \<open>Bucket\<close>

text \<open>
  Modelled from the spec: the per-key bucket of section 3, whose code is missing.
  Timestamps and durations are integer milliseconds, \<open>tokens\<close> is real-valued,
  \<open>capacity\<close> and \<open>refillRate\<close> (tokens per second) are integers.
\<close>

record bucket =
  key :: string
  capacity :: int
  tokens :: real
  refillRate :: int
  lastRefillAt :: int
  blockedUntil :: "int option"

text \<open>
  Modelled from the spec: \<^verbatim>\<open>refill(now)\<close> of section 4.1, whose code is missing:
  \<^verbatim>\<open>tokens = min(capacity, tokens + elapsed_seconds * refillRate)\<close>,
  \<^verbatim>\<open>lastRefillAt = now\<close>.
\<close>

definition refill :: "int \<Rightarrow> bucket \<Rightarrow> bucket" where
  "refill now b =
     (let elapsed = now - lastRefillAt b;
          elapsed_seconds = real_of_int elapsed / 1000
      in b \<lparr> tokens := min (real_of_int (capacity b))
                            (tokens b + elapsed_seconds * real_of_int (refillRate b)),
             lastRefillAt := now \<rparr>)"

text \<open>
  Modelled from the spec: step 1 of \<^verbatim>\<open>check\<close> in section 4.1, whose code is missing:
  a requested capacity or refill rate that differs from the stored one replaces it,
  and a new capacity clamps \<open>tokens\<close> down, never up.
\<close>

definition configure :: "int option \<Rightarrow> int option \<Rightarrow> bucket \<Rightarrow> bucket" where
  "configure requestedCapacity requestedRefillRate b =
     (let b1 = (case requestedCapacity of
                  None \<Rightarrow> b
                | Some c \<Rightarrow>
                    if c = capacity b then b
                    else b \<lparr> capacity := c, tokens := min (tokens b) (real_of_int c) \<rparr>)
      in (case requestedRefillRate of
            None \<Rightarrow> b1
          | Some r \<Rightarrow> if r = refillRate b1 then b1 else b1 \<lparr> refillRate := r \<rparr>))"

text \<open>
  Modelled from the spec: the test \<^verbatim>\<open>now < blockedUntil\<close> of section 3, whose code is
  missing: a bucket is blocked while it holds.
\<close>

definition isBlocked :: "int \<Rightarrow> bucket \<Rightarrow> bool" where
  "isBlocked now b = (case blockedUntil b of None \<Rightarrow> False | Some u \<Rightarrow> now < u)"

text \<open>
  Modelled from the spec: the result of \<^verbatim>\<open>check\<close>, whose code is missing:
  \<^verbatim>\<open>{allowed, tokens, capacity, reason?}\<close>, with \<open>tokens\<close> rounded down.
\<close>

datatype check_result =
  CheckResult (allowed: bool) (result_tokens: int) (result_capacity: int) (reason: "string option")

text \<open>
  Modelled from the spec: \<^verbatim>\<open>check(now, requestedCapacity?, requestedRefillRate?)\<close> of
  section 4.1, whose code is missing. Step 2: a blocked bucket answers
  \<^verbatim>\<open>blocked\<close> with no refill. Step 3: otherwise refill, and one token is taken when
  there is one.
\<close>

definition bucket_check ::
  "int \<Rightarrow> int option \<Rightarrow> int option \<Rightarrow> bucket \<Rightarrow> check_result \<times> bucket" where
  "bucket_check now requestedCapacity requestedRefillRate b =
     (let b1 = configure requestedCapacity requestedRefillRate b
      in if isBlocked now b1
         then (CheckResult False \<lfloor>tokens b1\<rfloor> (capacity b1) (Some ''blocked''), b1)
         else
           (let b2 = refill now b1
            in if 1 \<le> tokens b2
               then (let b3 = b2 \<lparr> tokens := tokens b2 - 1 \<rparr>
                     in (CheckResult True \<lfloor>tokens b3\<rfloor> (capacity b3) None, b3))
               else (CheckResult False \<lfloor>tokens b2\<rfloor> (capacity b2) (Some ''rate_limited''),
                     b2)))"

text \<open>
  Modelled from the spec: \<^verbatim>\<open>penalty(points)\<close> of section 4.1, whose code is missing:
  \<^verbatim>\<open>tokens = max(0, tokens - points)\<close>.
\<close>

definition penalty :: "int \<Rightarrow> bucket \<Rightarrow> bucket" where
  "penalty points b = b \<lparr> tokens := max 0 (tokens b - real_of_int points) \<rparr>"

text \<open>
  Modelled from the spec: \<^verbatim>\<open>reward(points)\<close> of section 4.1, whose code is missing:
  \<^verbatim>\<open>tokens = min(capacity, tokens + points)\<close>.
\<close>

definition reward :: "int \<Rightarrow> bucket \<Rightarrow> bucket" where
  "reward points b =
     b \<lparr> tokens := min (real_of_int (capacity b)) (tokens b + real_of_int points) \<rparr>"

text \<open>
  Modelled from the spec: \<^verbatim>\<open>block(now, durationMs)\<close> of section 4.1, whose code is
  missing: \<^verbatim>\<open>blockedUntil = now + durationMs\<close>, whatever block there was.
\<close>

definition block :: "int \<Rightarrow> int \<Rightarrow> bucket \<Rightarrow> bucket" where
  "block now durationMs b = b \<lparr> blockedUntil := Some (now + durationMs) \<rparr>"

text \<open>
  Modelled from the spec: \<^verbatim>\<open>unblock()\<close> of section 4.1, whose code is missing: it
  clears \<open>blockedUntil\<close> unconditionally.
\<close>

definition unblock :: "bucket \<Rightarrow> bucket" where
  "unblock b = b \<lparr> blockedUntil := None \<rparr>"

text \<open>
  Modelled from the spec: \<^verbatim>\<open>reset(now)\<close> of section 4.1, whose code is missing:
  \<^verbatim>\<open>tokens = capacity\<close>, \<open>blockedUntil\<close> cleared, \<^verbatim>\<open>lastRefillAt = now\<close>.
\<close>

definition reset :: "int \<Rightarrow> bucket \<Rightarrow> bucket" where
  "reset now b =
     b \<lparr> tokens := real_of_int (capacity b), blockedUntil := None, lastRefillAt := now \<rparr>"

text \<open>
  Modelled from the spec: the status that \<^verbatim>\<open>snapshot\<close> reports (section 4.1), whose
  code is missing, with \<open>tokens\<close> rounded down.
\<close>

datatype status =
  Status (status_key: string) (status_tokens: int) (status_capacity: int)
    (status_refillRate: int) (status_isBlocked: bool) (status_blockedUntil: "int option")

text \<open>
  Modelled from the spec: \<^verbatim>\<open>snapshot(now)\<close> of section 4.1, whose code is missing:
  refill, then report.
\<close>

definition snapshot :: "int \<Rightarrow> bucket \<Rightarrow> status \<times> bucket" where
  "snapshot now b =
     (let b1 = refill now b
      in (Status (key b1) \<lfloor>tokens b1\<rfloor> (capacity b1) (refillRate b1) (isBlocked now b1)
            (blockedUntil b1), b1))"

subsection \<open>Registry and metrics\<close>

text \<open>
  Modelled from the spec: the registry of section 4.2, whose code is missing: the
  buckets by key, in insertion order.
\<close>

type_synonym registry = "(string \<times> bucket) list"

text \<open>
  Modelled from the spec: the bucket that is created for a key not seen before
  (section 3, lifecycle), whose code is missing. The specification gives it the
  capacity and refill rate of the caller or the defaults; that it starts full and
  unblocked is what its testable property 2 takes for granted.
\<close>

definition new_bucket :: "string \<Rightarrow> int \<Rightarrow> int \<Rightarrow> int \<Rightarrow> bucket" where
  "new_bucket k c r now =
     \<lparr> key = k, capacity = c, tokens = real_of_int c, refillRate = r,
       lastRefillAt = now, blockedUntil = None \<rparr>"

text \<open>
  Modelled from the spec: \<^verbatim>\<open>getOrCreate(key, defaultCapacity, defaultRefillRate)\<close> of
  section 4.2, whose code is missing.
\<close>

definition getOrCreate :: "string \<Rightarrow> int \<Rightarrow> int \<Rightarrow> int \<Rightarrow> registry \<Rightarrow> bucket" where
  "getOrCreate k defaultCapacity defaultRefillRate now reg =
     (case map_of reg k of
        Some b \<Rightarrow> b
      | None \<Rightarrow> new_bucket k defaultCapacity defaultRefillRate now)"

text \<open>Modelled from the spec: the counters of section 3, whose code is missing.\<close>

record metrics =
  totalRequests :: nat
  allowedRequests :: nat
  blockedRequests :: nat

text \<open>
  Modelled from the spec: \<^verbatim>\<open>recordCheck(allowed)\<close> of section 4.3, whose code is
  missing.
\<close>

definition recordCheck :: "bool \<Rightarrow> metrics \<Rightarrow> metrics" where
  "recordCheck ok m =
     (if ok
      then m \<lparr> totalRequests := totalRequests m + 1, allowedRequests := allowedRequests m + 1 \<rparr>
      else m \<lparr> totalRequests := totalRequests m + 1, blockedRequests := blockedRequests m + 1 \<rparr>)"

subsection \<open>Engine\<close>

text \<open>
  Modelled from the spec: the state of the engine of section 2, whose code is
  missing: the registry, the counters, and the two defaults a bucket is created
  with when the operation names none.
\<close>

record engine =
  defaultCapacity :: int
  defaultRefillRate :: int
  buckets :: registry
  counters :: metrics

text \<open>
  Modelled from the spec: the two error kinds of section 7 that are failures,
  whose code is missing.
\<close>

datatype engine_error = NotFound | InvalidArgument

text \<open>
  Modelled from the spec: the nine operations of section 4.4 with their
  parameters, whose code is missing.
\<close>

datatype operation =
    Check string "int option" "int option"
  | Penalty string int
  | Reward string int
  | Block string int
  | Unblock string
  | GetStatus string
  | Reset string
  | Delete string
  | List

text \<open>
  Modelled from the spec: the results of the nine operations (section 4.4, last
  column), whose code is missing.
\<close>

datatype outcome_value =
    Checked check_result
  | PenaltyApplied int
  | RewardApplied int
  | Blocked int
  | Unblocked
  | StatusOf status
  | ResetDone
  | Deleted bool
  | Listed "status list"

text \<open>
  Modelled from the spec: the validation of arguments, whose code is missing.
  Section 7 makes a negative capacity, refill rate, points or duration, and a
  capacity that is not positive, an \<^verbatim>\<open>InvalidArgument\<close>.
\<close>

fun valid_arguments :: "operation \<Rightarrow> bool" where
  "valid_arguments (Check k c r) =
     ((case c of None \<Rightarrow> True | Some v \<Rightarrow> 0 < v) \<and> (case r of None \<Rightarrow> True | Some v \<Rightarrow> 0 \<le> v))"
| "valid_arguments (Penalty k points) = (0 \<le> points)"
| "valid_arguments (Reward k points) = (0 \<le> points)"
| "valid_arguments (Block k durationMs) = (0 \<le> durationMs)"
| "valid_arguments _ = True"

text \<open>
  Modelled from the spec: one operation of the catalogue of section 4.4 at the
  clock reading \<open>now\<close>, whose code is missing. \<^verbatim>\<open>check\<close>, \<^verbatim>\<open>penalty\<close>, \<^verbatim>\<open>reward\<close> and \<^verbatim>\<open>block\<close> create the
  bucket on demand; \<^verbatim>\<open>unblock\<close>, \<^verbatim>\<open>status\<close> and \<^verbatim>\<open>reset\<close> signal \<^verbatim>\<open>NotFound\<close> for a
  key never seen; \<^verbatim>\<open>delete\<close> answers whether the bucket was there (section 4.2).
  \<^verbatim>\<open>penalty\<close> and \<^verbatim>\<open>reward\<close> refill first, since section 4.1 wants a refill before
  every mutation that depends on the token count. A refused operation leaves the
  engine as it was.
\<close>

fun perform :: "int \<Rightarrow> operation \<Rightarrow> engine \<Rightarrow> (engine_error + outcome_value) \<times> engine" where
  "perform now (Check k c r) e =
     (let b = (case map_of (buckets e) k of
                 Some b \<Rightarrow> b
               | None \<Rightarrow>
                   new_bucket k (case c of None \<Rightarrow> defaultCapacity e | Some v \<Rightarrow> v)
                     (case r of None \<Rightarrow> defaultRefillRate e | Some v \<Rightarrow> v) now);
          (res, b') = bucket_check now c r b
      in (Inr (Checked res),
          e \<lparr> buckets := AList.update k b' (buckets e),
              counters := recordCheck (allowed res) (counters e) \<rparr>))"
| "perform now (Penalty k points) e =
     (let b = getOrCreate k (defaultCapacity e) (defaultRefillRate e) now (buckets e);
          b' = penalty points (refill now b)
      in (Inr (PenaltyApplied \<lfloor>tokens b'\<rfloor>), e \<lparr> buckets := AList.update k b' (buckets e) \<rparr>))"
| "perform now (Reward k points) e =
     (let b = getOrCreate k (defaultCapacity e) (defaultRefillRate e) now (buckets e);
          b' = reward points (refill now b)
      in (Inr (RewardApplied \<lfloor>tokens b'\<rfloor>), e \<lparr> buckets := AList.update k b' (buckets e) \<rparr>))"
| "perform now (Block k durationMs) e =
     (let b = getOrCreate k (defaultCapacity e) (defaultRefillRate e) now (buckets e);
          b' = block now durationMs b
      in (Inr (Blocked (now + durationMs)), e \<lparr> buckets := AList.update k b' (buckets e) \<rparr>))"
| "perform now (Unblock k) e =
     (case map_of (buckets e) k of
        None \<Rightarrow> (Inl NotFound, e)
      | Some b \<Rightarrow> (Inr Unblocked, e \<lparr> buckets := AList.update k (unblock b) (buckets e) \<rparr>))"
| "perform now (GetStatus k) e =
     (case map_of (buckets e) k of
        None \<Rightarrow> (Inl NotFound, e)
      | Some b \<Rightarrow>
          (let (st, b') = snapshot now b
           in (Inr (StatusOf st), e \<lparr> buckets := AList.update k b' (buckets e) \<rparr>)))"
| "perform now (Reset k) e =
     (case map_of (buckets e) k of
        None \<Rightarrow> (Inl NotFound, e)
      | Some b \<Rightarrow> (Inr ResetDone, e \<lparr> buckets := AList.update k (reset now b) (buckets e) \<rparr>))"
| "perform now (Delete k) e =
     (case map_of (buckets e) k of
        None \<Rightarrow> (Inr (Deleted False), e)
      | Some b \<Rightarrow> (Inr (Deleted True), e \<lparr> buckets := AList.delete k (buckets e) \<rparr>))"
| "perform now List e =
     (let snaps = map (\<lambda>(k, b). (k, snapshot now b)) (buckets e)
      in (Inr (Listed (map (\<lambda>(k, sb). fst sb) snaps)),
          e \<lparr> buckets := map (\<lambda>(k, sb). (k, snd sb)) snaps \<rparr>))"

text \<open>
  Modelled from the spec: an operation as the engine takes it, whose code is
  missing: arguments that section 7 rejects are refused before anything is done.
\<close>

definition engine_step ::
  "int \<Rightarrow> operation \<Rightarrow> engine \<Rightarrow> (engine_error + outcome_value) \<times> engine" where
  "engine_step now op e =
     (if valid_arguments op then perform now op e else (Inl InvalidArgument, e))"

text \<open>
  Modelled from the spec: a sequence of operations, whose code is missing: one
  after the other, each at its own clock reading; the outcomes in order, and the
  engine at the end.
\<close>

fun run ::
  "(int \<times> operation) list \<Rightarrow> engine \<Rightarrow> (engine_error + outcome_value) list \<times> engine" where
  "run [] e = ([], e)"
| "run ((now, op) # evs) e =
     (let (r, e1) = engine_step now op e;
          (rs, e2) = run evs e1
      in (r # rs, e2))"

text \<open>
  Modelled from the spec: the clock of section 2, whose code is missing, is
  monotonic: the readings of a run never go back.
\<close>

fun monotonic :: "int \<Rightarrow> (int \<times> operation) list \<Rightarrow> bool" where
  "monotonic t [] = True"
| "monotonic t ((now, op) # evs) = (t \<le> now \<and> monotonic now evs)"

text \<open>
  Modelled from the spec: the engine at start, whose code is missing: no bucket,
  all counters zero.
\<close>

definition new_engine :: "int \<Rightarrow> int \<Rightarrow> engine" where
  "new_engine c r =
     \<lparr> defaultCapacity = c, defaultRefillRate = r, buckets = [],
       counters = \<lparr> totalRequests = 0, allowedRequests = 0, blockedRequests = 0 \<rparr> \<rparr>"

subsection \<open>Notions used to state the properties of the engine\<close>

text \<open>What a \<^verbatim>\<open>check\<close> answered: whether it allowed the request, and the reason if any.\<close>

definition check_outcome :: "engine_error + outcome_value \<Rightarrow> (bool \<times> string option) option" where
  "check_outcome r = (case r of Inr (Checked c) \<Rightarrow> Some (allowed c, reason c) | _ \<Rightarrow> None)"

text \<open>
  A bucket of capacity 5 and refill rate 1 that was full at \<open>t1\<close>, has since given
  out \<open>5 - j\<close> tokens, and was last refilled at \<open>t0\<close>, less than a second after
  \<open>t1\<close>: it holds \<open>j\<close> tokens and the fraction refilled since \<open>t1\<close>.
\<close>

definition draining :: "int \<Rightarrow> int \<Rightarrow> nat \<Rightarrow> bucket \<Rightarrow> bool" where
  "draining t1 t0 j b =
     (capacity b = 5 \<and> refillRate b = 1 \<and> blockedUntil b = None \<and> lastRefillAt b = t0 \<and>
      tokens b = real j + real_of_int (t0 - t1) / 1000)"

section \<open>Properties of the client\<close>

lemma rstrip_append_replicate: "rstrip c (b @ replicate n c) = rstrip c b"
proof -
  have "dropWhile (\<lambda>x. x = c) (replicate n c @ ys) = dropWhile (\<lambda>x. x = c) ys" for ys
    by (induction n) simp_all
  then show ?thesis by (simp add: rstrip_def)
qed

lemmas method_defs =
  health_check_def get_metrics_def check_rate_limit_def apply_penalty_def apply_reward_def
  block_key_def unblock_key_def get_status_def reset_limiter_def delete_limiter_def
  list_limiters_def result_of_def client_after_def network_after_def
  issued_def Let_def split_def

lemma session_request_network [simp]:
  "snd (snd (session_request self v u b net)) =
     net \<lparr> sent := sent net @
       [\<lparr> verb = v, url = u, headers = session_headers self, body = b \<rparr>] \<rparr>"
  by (simp add: session_request_def Let_def split: sum.splits)

lemma session_request_base_url [simp]:
  "base_url (fst (snd (session_request self v u b net))) = base_url self"
  "session_headers (fst (snd (session_request self v u b net))) = session_headers self"
  by (simp_all add: session_request_def Let_def split: sum.splits)


lemma store_no_cookies [simp]: "store_cookies [] jar = jar"
  by (simp add: store_cookies_def)

lemma rstrip_no_trailing: "rstrip c s \<noteq> t @ [c]"
proof
  assume "rstrip c s = t @ [c]"
  then have "rev (rstrip c s) = c # rev t" by simp
  then have d: "dropWhile (\<lambda>x. x = c) (rev s) = c # rev t" by (simp add: rstrip_def)
  have "dropWhile (\<lambda>x. x = c) (rev s) = [] \<or> hd (dropWhile (\<lambda>x. x = c) (rev s)) \<noteq> c"
    using hd_dropWhile [of "\<lambda>x. x = c" "rev s"] by blast
  with d show False by simp
qed

lemma last_segment_has_no_slash: "CHR ''/'' \<notin> set (last_segment u)"
  by (auto simp: last_segment_def dest: set_takeWhileD)

lemma last_segment_of_slash_free:
  "CHR ''/'' \<notin> set s \<Longrightarrow> last_segment (p @ ''/'' @ s) = s"
proof -
  have "takeWhile (\<lambda>x. x \<noteq> CHR ''/'') (rev s @ CHR ''/'' # rev p) = rev s"
    if "CHR ''/'' \<notin> set s"
    using that by (induction s rule: rev_induct) auto
  then show "CHR ''/'' \<notin> set s \<Longrightarrow> last_segment (p @ ''/'' @ s) = s"
    by (simp add: last_segment_def)
qed



text \<open>
  Claim C1. The class has eleven public methods and no other: the nine operations
  on limiters (check, penalty, reward, block, unblock, status, reset, delete, list)
  and the two queries (health, metrics). Eight of them take \<open>key\<close> as their first
  parameter; \<open>list_limiters\<close>, like the two queries, takes none. The nine operations
  are those whose URL lies under \<open>/api/v1/limiter\<close>.
\<close>

theorem client_operations:
  "map fst methods =
     [''health_check'', ''get_metrics'', ''check_rate_limit'', ''apply_penalty'',
      ''apply_reward'', ''block_key'', ''unblock_key'', ''get_status'', ''reset_limiter'',
      ''delete_limiter'', ''list_limiters'']
   \<and> [n. (n, ps) \<leftarrow> methods, take 1 ps = [''key'']] =
     [''check_rate_limit'', ''apply_penalty'', ''apply_reward'', ''block_key'',
      ''unblock_key'', ''get_status'', ''reset_limiter'', ''delete_limiter'']
   \<and> [n. (n, ps) \<leftarrow> methods, ps = []] = [''health_check'', ''get_metrics'', ''list_limiters'']
   \<and> starts_with (base_url self @ ''/api/v1/limiter'') (url (issued (invoke self c net)))
       = (c \<noteq> Health_check \<and> c \<noteq> Get_metrics)"
  by (cases c) (simp_all add: methods_def method_defs starts_with_def)

text \<open>
  Claim C2. \<open>check_rate_limit\<close> sends one POST to \<open>base_url/api/v1/limiter/check\<close>
  whose JSON body is the key, the capacity and the refill rate under the names
  \<open>key\<close>, \<open>capacity\<close> and \<open>refillRate\<close>, in this order and nothing else. A call that
  omits the capacity sends 100, one that omits the refill rate sends 10: both
  fields are in every request.
\<close>

theorem check_rate_limit_request:
  "network_after (check_rate_limit self k (Some cap) (Some rate) net) =
     net \<lparr> sent := sent net @
       [\<lparr> verb = POST, url = base_url self @ ''/api/v1/limiter/check'',
          headers = session_headers self,
          body = Some (JObj [(''key'', JStr k), (''capacity'', JInt cap),
                             (''refillRate'', JInt rate)]) \<rparr>] \<rparr>
   \<and> check_rate_limit self k None None net =
       check_rate_limit self k (Some 100) (Some 10) net
   \<and> check_rate_limit self k (Some cap) None net =
       check_rate_limit self k (Some cap) (Some 10) net
   \<and> check_rate_limit self k None (Some rate) net =
       check_rate_limit self k (Some 100) (Some rate) net"
  by (simp add: method_defs)

text \<open>
  Claim C5. \<open>apply_penalty\<close> POSTs the body \<open>{"key": key, "points": points}\<close> to
  \<open>/api/v1/limiter/penalty\<close>, \<open>apply_reward\<close> POSTs a body of the same shape to
  \<open>/api/v1/limiter/reward\<close>, and \<open>points\<close> is the only parameter of either besides
  the key.
\<close>

theorem penalty_reward_request:
  "network_after (apply_penalty self k points net) =
     net \<lparr> sent := sent net @
       [\<lparr> verb = POST, url = base_url self @ ''/api/v1/limiter/penalty'',
          headers = session_headers self,
          body = Some (JObj [(''key'', JStr k), (''points'', JInt points)]) \<rparr>] \<rparr>
   \<and> network_after (apply_reward self k points net) =
     net \<lparr> sent := sent net @
       [\<lparr> verb = POST, url = base_url self @ ''/api/v1/limiter/reward'',
          headers = session_headers self,
          body = Some (JObj [(''key'', JStr k), (''points'', JInt points)]) \<rparr>] \<rparr>
   \<and> map_of methods ''apply_penalty'' = Some [''key'', ''points'']
   \<and> map_of methods ''apply_reward'' = Some [''key'', ''points'']"
  by (simp add: method_defs methods_def)

text \<open>
  Claim C6. \<open>block_key\<close> POSTs exactly \<open>{"key": key, "duration": duration}\<close> to
  \<open>/api/v1/limiter/block\<close>, and \<open>unblock_key\<close> POSTs exactly \<open>{"key": key}\<close> to
  \<open>/api/v1/limiter/unblock\<close>.
\<close>

theorem block_unblock_request:
  "network_after (block_key self k duration net) =
     net \<lparr> sent := sent net @
       [\<lparr> verb = POST, url = base_url self @ ''/api/v1/limiter/block'',
          headers = session_headers self,
          body = Some (JObj [(''key'', JStr k), (''duration'', JInt duration)]) \<rparr>] \<rparr>
   \<and> network_after (unblock_key self k net) =
     net \<lparr> sent := sent net @
       [\<lparr> verb = POST, url = base_url self @ ''/api/v1/limiter/unblock'',
          headers = session_headers self,
          body = Some (JObj [(''key'', JStr k)]) \<rparr>] \<rparr>"
  by (simp add: method_defs)


text \<open>
  The cookie jar is state the session call does change: after an answer to
  \<open>health_check\<close> that sets a cookie, the client holds it.
\<close>

lemma health_check_keeps_cookie:
  "session_cookies (client_after (health_check (init None)
      \<lparr> outcome = (\<lambda>n r. Inr \<lparr> status_code = 200, content = Some (JObj []),
                               set_cookies = [(''sid'', ''1'')] \<rparr>), sent = [] \<rparr>)) =
     [(''sid'', ''1'')]"
  by (simp add: method_defs session_request_def init_def store_cookies_def)

text \<open>
  Claim C8. \<open>get_status\<close>, \<open>reset_limiter\<close> and \<open>delete_limiter\<close> append the key as
  it is to the path and send no body, while the five POST operations carry the key
  in the body. A key with a slash in it is therefore not the last segment of the
  path the three build (a key without one is), and deleting the key \<open>status/k\<close>
  names the very URL that the status of the key \<open>k\<close> has.
\<close>

theorem key_in_path_unencoded:
  "url (issued (get_status self k net)) = base_url self @ ''/api/v1/limiter/status/'' @ k
   \<and> url (issued (reset_limiter self k net)) = base_url self @ ''/api/v1/limiter/reset/'' @ k
   \<and> url (issued (delete_limiter self k net)) = base_url self @ ''/api/v1/limiter/'' @ k
   \<and> body (issued (get_status self k net)) = None
   \<and> body (issued (reset_limiter self k net)) = None
   \<and> body (issued (delete_limiter self k net)) = None
   \<and> body_key (issued (check_rate_limit self k c r net)) = Some (JStr k)
   \<and> body_key (issued (apply_penalty self k n net)) = Some (JStr k)
   \<and> body_key (issued (apply_reward self k n net)) = Some (JStr k)
   \<and> body_key (issued (block_key self k d net)) = Some (JStr k)
   \<and> body_key (issued (unblock_key self k net)) = Some (JStr k)
   \<and> (CHR ''/'' \<in> set k \<longrightarrow>
        last_segment (url (issued (get_status self k net))) \<noteq> k
      \<and> last_segment (url (issued (reset_limiter self k net))) \<noteq> k
      \<and> last_segment (url (issued (delete_limiter self k net))) \<noteq> k)
   \<and> (CHR ''/'' \<notin> set k \<longrightarrow>
        last_segment (url (issued (get_status self k net))) = k
      \<and> last_segment (url (issued (reset_limiter self k net))) = k
      \<and> last_segment (url (issued (delete_limiter self k net))) = k)
   \<and> url (issued (delete_limiter self (''status/'' @ k) net)) =
       url (issued (get_status self k net))"
proof -
  have u1: "url (issued (get_status self k net)) = base_url self @ ''/api/v1/limiter/status/'' @ k"
    and u2: "url (issued (reset_limiter self k net)) = base_url self @ ''/api/v1/limiter/reset/'' @ k"
    and u3: "url (issued (delete_limiter self k net)) = base_url self @ ''/api/v1/limiter/'' @ k"
    by (simp_all add: method_defs)
  have b1: "body (issued (get_status self k net)) = None"
    and b2: "body (issued (reset_limiter self k net)) = None"
    and b3: "body (issued (delete_limiter self k net)) = None"
    and b4: "body_key (issued (check_rate_limit self k c r net)) = Some (JStr k)"
    and b5: "body_key (issued (apply_penalty self k n net)) = Some (JStr k)"
    and b6: "body_key (issued (apply_reward self k n net)) = Some (JStr k)"
    and b7: "body_key (issued (block_key self k d net)) = Some (JStr k)"
    and b8: "body_key (issued (unblock_key self k net)) = Some (JStr k)"
    by (simp_all add: method_defs body_key_def)
  have differ: "last_segment u \<noteq> k" if "CHR ''/'' \<in> set k" for u
    using that last_segment_has_no_slash [of u] by auto
  have d: "CHR ''/'' \<in> set k \<longrightarrow>
        last_segment (url (issued (get_status self k net))) \<noteq> k
      \<and> last_segment (url (issued (reset_limiter self k net))) \<noteq> k
      \<and> last_segment (url (issued (delete_limiter self k net))) \<noteq> k"
    using differ by blast
  have s1: "last_segment (url (issued (get_status self k net))) = k" if "CHR ''/'' \<notin> set k"
    using last_segment_of_slash_free [OF that, of "base_url self @ ''/api/v1/limiter/status''"]
    by (simp add: u1)
  have s2: "last_segment (url (issued (reset_limiter self k net))) = k" if "CHR ''/'' \<notin> set k"
    using last_segment_of_slash_free [OF that, of "base_url self @ ''/api/v1/limiter/reset''"]
    by (simp add: u2)
  have s3: "last_segment (url (issued (delete_limiter self k net))) = k" if "CHR ''/'' \<notin> set k"
    using last_segment_of_slash_free [OF that, of "base_url self @ ''/api/v1/limiter''"]
    by (simp add: u3)
  have s: "CHR ''/'' \<notin> set k \<longrightarrow>
        last_segment (url (issued (get_status self k net))) = k
      \<and> last_segment (url (issued (reset_limiter self k net))) = k
      \<and> last_segment (url (issued (delete_limiter self k net))) = k"
    using s1 s2 s3 by blast
  have collide: "url (issued (delete_limiter self (''status/'' @ k) net)) =
       url (issued (get_status self k net))"
    by (simp add: method_defs)
  show ?thesis
    by (intro conjI) (fact u1 u2 u3 b1 b2 b3 b4 b5 b6 b7 b8 d s collide)+
qed

theorem key_in_path_unencoded_witness:
  "CHR ''/'' \<in> set ''a/b''
   \<and> last_segment (url (issued (get_status (init None) ''a/b''
        \<lparr> outcome = (\<lambda>n r. Inl RequestException), sent = [] \<rparr>))) \<noteq> ''a/b''
   \<and> url (issued (get_status (init None) ''a/b''
        \<lparr> outcome = (\<lambda>n r. Inl RequestException), sent = [] \<rparr>)) =
       ''http://localhost:8080/api/v1/limiter/status/a/b''
   \<and> CHR ''/'' \<notin> set ''user-1''
   \<and> last_segment (url (issued (get_status (init None) ''user-1''
        \<lparr> outcome = (\<lambda>n r. Inl RequestException), sent = [] \<rparr>))) = ''user-1''"
proof -
  let ?net = "\<lparr> outcome = (\<lambda>n r. Inl RequestException), sent = [] \<rparr>"
  note slash = key_in_path_unencoded [of "init None" "''a/b''" ?net None None 0 0]
  note plain = key_in_path_unencoded [of "init None" "''user-1''" ?net None None 0 0]
  have in_key: "CHR ''/'' \<in> set ''a/b''" and not_in_key: "CHR ''/'' \<notin> set ''user-1''"
    by simp_all
  from slash in_key
  have w1: "last_segment (url (issued (get_status (init None) ''a/b'' ?net))) \<noteq> ''a/b''"
    by blast
  from slash
  have "url (issued (get_status (init None) ''a/b'' ?net)) =
          base_url (init None) @ ''/api/v1/limiter/status/'' @ ''a/b''"
    by blast
  then have w2: "url (issued (get_status (init None) ''a/b'' ?net)) =
          ''http://localhost:8080/api/v1/limiter/status/a/b''"
    by (simp add: init_def rstrip_def)
  from plain not_in_key
  have w3: "last_segment (url (issued (get_status (init None) ''user-1'' ?net))) = ''user-1''"
    by blast
  from in_key w1 w2 not_in_key w3 show ?thesis by blast
qed

text \<open>
  Claim C9. Trailing slashes of the base URL make no difference: the constructor
  strips them all, so a client made from \<open>b\<close> followed by any number of slashes is
  the client made from \<open>b\<close>, every operation does the same with either, and the
  URLs requested are the same character for character. The stored base URL never
  ends in a slash.
\<close>

theorem base_url_trailing_slashes:
  "init (Some (b @ replicate n CHR ''/'')) = init (Some b)
   \<and> invoke (init (Some (b @ replicate n CHR ''/''))) c net = invoke (init (Some b)) c net
   \<and> url (issued (invoke (init (Some (b @ replicate n CHR ''/''))) c net)) =
       url (issued (invoke (init (Some b)) c net))
   \<and> \<not> (\<exists>s. base_url (init (Some b)) = s @ ''/'')"
proof -
  have eq: "init (Some (b @ replicate n CHR ''/'')) = init (Some b)"
    by (simp add: init_def rstrip_append_replicate)
  have "\<not> (\<exists>s. base_url (init (Some b)) = s @ ''/'')"
    by (simp add: init_def rstrip_no_trailing)
  with eq show ?thesis by simp
qed



section \<open>Properties of the engine\<close>

subsection \<open>Exhausting a fresh bucket\<close>

lemma refill_draining:
  assumes "draining t1 t0 j b" "t1 \<le> t0" "t0 \<le> t" "t < t1 + 1000" "j \<le> 4"
  shows "refill t (configure (Some 5) (Some 1) b) =
           b \<lparr> tokens := real j + real_of_int (t - t1) / 1000, lastRefillAt := t \<rparr>"
proof -
  from assms(1) have cfg: "configure (Some 5) (Some 1) b = b"
    by (simp add: configure_def draining_def)
  have sum: "tokens b + real_of_int (t - t0) / 1000 * real_of_int (refillRate b) =
          real j + real_of_int (t - t1) / 1000"
    using assms(1) by (simp add: draining_def field_simps)
  have frac: "real_of_int (t - t1) / 1000 < 1" using assms by simp
  have "real j \<le> 4" using assms(5) by simp
  with frac have "real j + real_of_int (t - t1) / 1000 \<le> 5" by linarith
  moreover have "real_of_int (capacity b) = 5" using assms(1) by (simp add: draining_def)
  ultimately have le: "real j + real_of_int (t - t1) / 1000 \<le> real_of_int (capacity b)"
    by simp
  have last: "lastRefillAt b = t0" using assms(1) by (simp add: draining_def)
  show ?thesis
    unfolding cfg refill_def Let_def last sum using le by (simp add: min_def)
qed

lemma bucket_check_allowed:
  assumes "draining t1 t0 (Suc j) b" "t1 \<le> t0" "t0 \<le> t" "t < t1 + 1000" "Suc j \<le> 4"
  shows "allowed (fst (bucket_check t (Some 5) (Some 1) b))"
    and "reason (fst (bucket_check t (Some 5) (Some 1) b)) = None"
    and "draining t1 t j (snd (bucket_check t (Some 5) (Some 1) b))"
proof -
  from assms(1) have cfg: "configure (Some 5) (Some 1) b = b"
    by (simp add: configure_def draining_def)
  have nb: "\<not> isBlocked t b" using assms(1) by (simp add: isBlocked_def draining_def)
  note rf = refill_draining [OF assms]
  have ge: "1 \<le> real (Suc j) + real_of_int (t - t1) / 1000" using assms by simp
  have bc: "bucket_check t (Some 5) (Some 1) b =
      (CheckResult True \<lfloor>real (Suc j) + real_of_int (t - t1) / 1000 - 1\<rfloor> (capacity b) None,
       b \<lparr> tokens := real (Suc j) + real_of_int (t - t1) / 1000 - 1, lastRefillAt := t \<rparr>)"
    unfolding bucket_check_def Let_def rf using nb ge by (simp add: cfg)
  show "allowed (fst (bucket_check t (Some 5) (Some 1) b))"
    and "reason (fst (bucket_check t (Some 5) (Some 1) b)) = None"
    by (simp_all add: bc)
  show "draining t1 t j (snd (bucket_check t (Some 5) (Some 1) b))"
    using assms(1) by (simp add: bc draining_def)
qed

lemma bucket_check_denied:
  assumes "draining t1 t0 0 b" "t1 \<le> t0" "t0 \<le> t" "t < t1 + 1000"
  shows "\<not> allowed (fst (bucket_check t (Some 5) (Some 1) b))"
    and "reason (fst (bucket_check t (Some 5) (Some 1) b)) = Some ''rate_limited''"
proof -
  from assms(1) have cfg: "configure (Some 5) (Some 1) b = b"
    by (simp add: configure_def draining_def)
  have nb: "\<not> isBlocked t b" using assms(1) by (simp add: isBlocked_def draining_def)
  note rf = refill_draining [OF assms, simplified]
  have lt: "\<not> 1 \<le> real_of_int (t - t1) / 1000" using assms by simp
  have bc: "fst (bucket_check t (Some 5) (Some 1) b) =
      CheckResult False \<lfloor>real_of_int (t - t1) / 1000\<rfloor> (capacity b) (Some ''rate_limited'')"
    unfolding bucket_check_def Let_def rf using nb lt by (simp add: cfg)
  show "\<not> allowed (fst (bucket_check t (Some 5) (Some 1) b))"
    and "reason (fst (bucket_check t (Some 5) (Some 1) b)) = Some ''rate_limited''"
    by (simp_all add: bc)
qed

lemma engine_check_existing:
  assumes "map_of (buckets e) k = Some b"
  shows "check_outcome (fst (engine_step t (Check k (Some 5) (Some 1)) e)) =
           Some (allowed (fst (bucket_check t (Some 5) (Some 1) b)),
                 reason (fst (bucket_check t (Some 5) (Some 1) b)))"
    and "map_of (buckets (snd (engine_step t (Check k (Some 5) (Some 1)) e))) k =
           Some (snd (bucket_check t (Some 5) (Some 1) b))"
  using assms by (simp_all add: engine_step_def Let_def split_def check_outcome_def update_conv')

lemma engine_check_fresh:
  assumes "map_of (buckets e) k = None"
  shows "check_outcome (fst (engine_step t (Check k (Some 5) (Some 1)) e)) = Some (True, None)"
    and "\<exists>b. map_of (buckets (snd (engine_step t (Check k (Some 5) (Some 1)) e))) k = Some b
             \<and> draining t t 4 b"
proof -
  have bc: "bucket_check t (Some 5) (Some 1) (new_bucket k 5 1 t) =
      (CheckResult True 4 5 None, (new_bucket k 5 1 t) \<lparr> tokens := 4 \<rparr>)"
    by (simp add: bucket_check_def configure_def new_bucket_def isBlocked_def refill_def Let_def)
  show "check_outcome (fst (engine_step t (Check k (Some 5) (Some 1)) e)) = Some (True, None)"
    using assms by (simp add: engine_step_def Let_def bc check_outcome_def)
  have "map_of (buckets (snd (engine_step t (Check k (Some 5) (Some 1)) e))) k =
          Some ((new_bucket k 5 1 t) \<lparr> tokens := 4 \<rparr>)"
    using assms by (simp add: engine_step_def Let_def bc update_conv')
  moreover have "draining t t 4 ((new_bucket k 5 1 t) \<lparr> tokens := 4 \<rparr>)"
    by (simp add: draining_def new_bucket_def)
  ultimately show "\<exists>b. map_of (buckets (snd (engine_step t (Check k (Some 5) (Some 1)) e))) k = Some b
             \<and> draining t t 4 b"
    by blast
qed

lemma engine_check_allowed:
  assumes "\<exists>b. map_of (buckets e) k = Some b \<and> draining t1 t0 (Suc j) b"
    and "t1 \<le> t0" "t0 \<le> t" "t < t1 + 1000" "Suc j \<le> 4"
  shows "check_outcome (fst (engine_step t (Check k (Some 5) (Some 1)) e)) = Some (True, None)"
    and "\<exists>b. map_of (buckets (snd (engine_step t (Check k (Some 5) (Some 1)) e))) k = Some b
             \<and> draining t1 t j b"
proof -
  from assms(1) obtain b where b: "map_of (buckets e) k = Some b" "draining t1 t0 (Suc j) b"
    by blast
  note bc = bucket_check_allowed [OF b(2) assms(2-5)]
  show "check_outcome (fst (engine_step t (Check k (Some 5) (Some 1)) e)) = Some (True, None)"
    using engine_check_existing(1) [OF b(1), of t] bc(1,2) by simp
  show "\<exists>b. map_of (buckets (snd (engine_step t (Check k (Some 5) (Some 1)) e))) k = Some b
             \<and> draining t1 t j b"
    using engine_check_existing(2) [OF b(1), of t] bc(3) by blast
qed

lemma engine_check_denied:
  assumes "\<exists>b. map_of (buckets e) k = Some b \<and> draining t1 t0 0 b"
    and "t1 \<le> t0" "t0 \<le> t" "t < t1 + 1000"
  shows "check_outcome (fst (engine_step t (Check k (Some 5) (Some 1)) e)) =
           Some (False, Some ''rate_limited'')"
proof -
  from assms(1) obtain b where b: "map_of (buckets e) k = Some b" "draining t1 t0 0 b"
    by blast
  note bc = bucket_check_denied [OF b(2) assms(2-4)]
  show ?thesis
    using engine_check_existing(1) [OF b(1), of t] bc by simp
qed

text \<open>
  Claim C4. On a key the engine has not seen, six checks with capacity 5 and
  refill rate 1, made in order within less than the second that one token takes to
  come back: the first five are allowed, the sixth is refused with the reason
  \<open>rate_limited\<close>.
\<close>

theorem fresh_key_exhaustion:
  assumes "map_of (buckets e) k = None"
    and "t1 \<le> t2" "t2 \<le> t3" "t3 \<le> t4" "t4 \<le> t5" "t5 \<le> t6" "t6 < t1 + 1000"
  shows "map check_outcome (fst (run
           [(t1, Check k (Some 5) (Some 1)), (t2, Check k (Some 5) (Some 1)),
            (t3, Check k (Some 5) (Some 1)), (t4, Check k (Some 5) (Some 1)),
            (t5, Check k (Some 5) (Some 1)), (t6, Check k (Some 5) (Some 1))] e)) =
         [Some (True, None), Some (True, None), Some (True, None), Some (True, None),
          Some (True, None), Some (False, Some ''rate_limited'')]"
proof -
  let ?op = "Check k (Some 5) (Some 1)"
  define e1 where "e1 = snd (engine_step t1 ?op e)"
  define e2 where "e2 = snd (engine_step t2 ?op e1)"
  define e3 where "e3 = snd (engine_step t3 ?op e2)"
  define e4 where "e4 = snd (engine_step t4 ?op e3)"
  define e5 where "e5 = snd (engine_step t5 ?op e4)"
  have r1: "check_outcome (fst (engine_step t1 ?op e)) = Some (True, None)"
    and d1: "\<exists>b. map_of (buckets e1) k = Some b \<and> draining t1 t1 4 b"
    unfolding e1_def using engine_check_fresh [OF assms(1), of t1] by simp_all
  have r2: "check_outcome (fst (engine_step t2 ?op e1)) = Some (True, None)"
    and d2: "\<exists>b. map_of (buckets e2) k = Some b \<and> draining t1 t2 3 b"
    unfolding e2_def using engine_check_allowed [of e1 k t1 t1 3 t2] d1 assms
    by (simp_all add: eval_nat_numeral)
  have r3: "check_outcome (fst (engine_step t3 ?op e2)) = Some (True, None)"
    and d3: "\<exists>b. map_of (buckets e3) k = Some b \<and> draining t1 t3 2 b"
    unfolding e3_def using engine_check_allowed [of e2 k t1 t2 2 t3] d2 assms
    by (simp_all add: eval_nat_numeral)
  have r4: "check_outcome (fst (engine_step t4 ?op e3)) = Some (True, None)"
    and d4: "\<exists>b. map_of (buckets e4) k = Some b \<and> draining t1 t4 1 b"
    unfolding e4_def using engine_check_allowed [of e3 k t1 t3 1 t4] d3 assms
    by (simp_all add: eval_nat_numeral)
  have r5: "check_outcome (fst (engine_step t5 ?op e4)) = Some (True, None)"
    and d5: "\<exists>b. map_of (buckets e5) k = Some b \<and> draining t1 t5 0 b"
    unfolding e5_def using engine_check_allowed [of e4 k t1 t4 0 t5] d4 assms
    by (simp_all add: eval_nat_numeral)
  have r6: "check_outcome (fst (engine_step t6 ?op e5)) = Some (False, Some ''rate_limited'')"
    using engine_check_denied [of e5 k t1 t5 t6] d5 assms by simp
  have "fst (run [(t1, ?op), (t2, ?op), (t3, ?op), (t4, ?op), (t5, ?op), (t6, ?op)] e) =
     [fst (engine_step t1 ?op e), fst (engine_step t2 ?op e1), fst (engine_step t3 ?op e2),
      fst (engine_step t4 ?op e3), fst (engine_step t5 ?op e4), fst (engine_step t6 ?op e5)]"
    by (simp add: split_def Let_def e1_def e2_def e3_def e4_def e5_def)
  then show ?thesis
    by (simp add: r1 r2 r3 r4 r5 r6)
qed

theorem fresh_key_exhaustion_witness:
  "map_of (buckets (new_engine 100 10)) ''demo-python-user'' = None
   \<and> (0::int) \<le> 100 \<and> (100::int) \<le> 200 \<and> (200::int) \<le> 300 \<and> (300::int) \<le> 400
   \<and> (400::int) \<le> 500 \<and> (500::int) < 0 + 1000
   \<and> map check_outcome (fst (run
           [(0, Check ''demo-python-user'' (Some 5) (Some 1)),
            (100, Check ''demo-python-user'' (Some 5) (Some 1)),
            (200, Check ''demo-python-user'' (Some 5) (Some 1)),
            (300, Check ''demo-python-user'' (Some 5) (Some 1)),
            (400, Check ''demo-python-user'' (Some 5) (Some 1)),
            (500, Check ''demo-python-user'' (Some 5) (Some 1))] (new_engine 100 10))) =
         [Some (True, None), Some (True, None), Some (True, None), Some (True, None),
          Some (True, None), Some (False, Some ''rate_limited'')]"
proof -
  have fresh: "map_of (buckets (new_engine 100 10)) ''demo-python-user'' = None"
    by (simp add: new_engine_def)
  from fresh fresh_key_exhaustion [OF fresh, of 0 100 200 300 400 500]
  show ?thesis by simp
qed

end
